theory Spec2Isabelle
  imports Main
begin

section \<open>Data model\<close>

text \<open>
  A content identifier is used by the indexer only through \<^verbatim>\<open>String()\<close>, as a key of
  the object store and as a column value; it is modelled by that string.
\<close>

type_synonym cid = string

text \<open>
  The dynamic types a field value has behind Go's \<^verbatim>\<open>interface{}\<close>. The indexer tells
  \<^verbatim>\<open>*format.Link\<close> (what \<^verbatim>\<open>Object.Get\<close> gives for a field that holds one link) from
  \<^verbatim>\<open>*cid.Cid\<close> (an element of a sequence of links, and what \<^verbatim>\<open>Graph.Get\<close> gives for
  a link), so both are kept.
\<close>

datatype val =
    VStr string
  | VNum int
  | VBool bool
  | VLink cid
  | VCid cid
  | VSeq "val list"
  | VMap "(string \<times> val) list"

record object =
  Cid :: cid
  Fields :: "(string \<times> val) list"

datatype sqlite_code = ErrConstraint | ErrIoErr

datatype sqlite_ext = ErrConstraintUnique | ErrConstraintNotNull | ErrNoExtended

text \<open>
  Every error value the indexer can return. \<open>ErrPanic\<close> stands for the run-time panic
  of a failed type assertion \<^verbatim>\<open>v.(string)\<close>; it leaves the call like an error does.
\<close>

datatype error =
    ErrPathNotFound
  | ErrTypeMismatch
  | ErrStore string
  | ErrObjectDecode string
  | ErrDecoding "string list" error
  | ErrExpectedCid "string list" val
  | ErrUnexpectedFieldType string val
  | ErrInvalidType string val
  | ErrExpectedOne string nat
  | ErrMissingReferenceTitle string
  | ErrSqlite sqlite_code sqlite_ext
  | ErrPanic
  | ErrContext string
  | ErrStream string

datatype table =
    T_party | T_ern | T_sound_recording | T_resource_list | T_release | T_release_list

type_synonym row = "string list"

text \<open>The rows of each table, in insertion order; a duplicate row shows as a repeat.\<close>

type_synonym db = "table \<Rightarrow> row list"

text \<open>
  What the methods reach through the receiver \<^verbatim>\<open>i\<close> and package ern does not
  define itself, as parameters: the content of the object store
  (\<^verbatim>\<open>i.store.Get\<close>, a failure being the store's message), the tables of \<^verbatim>\<open>i.index\<close>
  that carry a uniqueness constraint on their key, and \<^verbatim>\<open>Object.Decode\<close> into a
  \<^verbatim>\<open>struct { Value string `json:"@value"` }\<close>.
\<close>

record Indexer =
  store :: "cid \<Rightarrow> string + object"
  unique :: "table \<Rightarrow> bool"
  decode :: "object \<Rightarrow> string + string"

section \<open>Collaborators\<close>

definition Store_Get :: "Indexer \<Rightarrow> cid \<Rightarrow> error + object" where
  "Store_Get i c = (case store i c of Inl m \<Rightarrow> Inl (ErrStore m) | Inr obj \<Rightarrow> Inr obj)"

definition Object_Decode :: "Indexer \<Rightarrow> object \<Rightarrow> error + string" where
  "Object_Decode i obj = (case decode i obj of Inl m \<Rightarrow> Inl (ErrObjectDecode m) | Inr s \<Rightarrow> Inr s)"

definition IsPathNotFound :: "error \<Rightarrow> bool" where
  "IsPathNotFound e = (case e of ErrPathNotFound \<Rightarrow> True | _ \<Rightarrow> False)"

text \<open>
  Modelled from the spec: \<^verbatim>\<open>Object.Get\<close> of package meta, which the sources
  verified here call but do not contain. It is the single-level field lookup without
  dereferencing links; an absent field is an error.
\<close>

definition Object_Get :: "object \<Rightarrow> string \<Rightarrow> error + val" where
  "Object_Get obj f = (case map_of (Fields obj) f of None \<Rightarrow> Inl ErrPathNotFound | Some v \<Rightarrow> Inr v)"

text \<open>
  Modelled from the spec: \<^verbatim>\<open>Graph.Get\<close> of package meta, which the sources
  verified here call but do not contain. At each step a link is dereferenced through
  the store (a store failure aborts with the store's error), the next field name is
  resolved on the resulting object, and an absent field aborts with PathNotFound; any
  other value with path left over is a type mismatch. The final value is returned
  without being dereferenced, a link as the \<^verbatim>\<open>*cid.Cid\<close> the callers assert.
\<close>

definition fields_of :: "Indexer \<Rightarrow> val \<Rightarrow> error + (string \<times> val) list" where
  "fields_of i v =
     (case v of
        VLink c \<Rightarrow> (case Store_Get i c of Inl e \<Rightarrow> Inl e | Inr obj \<Rightarrow> Inr (Fields obj))
      | VCid c \<Rightarrow> (case Store_Get i c of Inl e \<Rightarrow> Inl e | Inr obj \<Rightarrow> Inr (Fields obj))
      | VMap m \<Rightarrow> Inr m
      | _ \<Rightarrow> Inl ErrTypeMismatch)"

fun resolve :: "Indexer \<Rightarrow> val \<Rightarrow> string list \<Rightarrow> error + val" where
  "resolve i v [] = Inr (case v of VLink c \<Rightarrow> VCid c | _ \<Rightarrow> v)"
| "resolve i v (f # path) =
     (case fields_of i v of
        Inl e \<Rightarrow> Inl e
      | Inr m \<Rightarrow> (case map_of m f of None \<Rightarrow> Inl ErrPathNotFound | Some v' \<Rightarrow> resolve i v' path))"

definition Graph_Get :: "Indexer \<Rightarrow> object \<Rightarrow> string list \<Rightarrow> error + val" where
  "Graph_Get i obj path = resolve i (VMap (Fields obj)) path"

text \<open>
  Modelled from the spec: the schema of the ERN index (the migrations of package
  ern), which the sources verified here do not contain. An entity table is keyed by
  the content identifier in its first column, an association table by its pair of
  identifiers; whether a table enforces the key is the parameter \<open>unique\<close>.
\<close>

definition key_of :: "table \<Rightarrow> row \<Rightarrow> row" where
  "key_of t r =
     (case t of T_resource_list \<Rightarrow> take 2 r | T_release_list \<Rightarrow> take 2 r | _ \<Rightarrow> take 1 r)"

text \<open>
  \<^verbatim>\<open>tx.Exec("INSERT INTO t ...")\<close>: the statement fails with SQLite's uniqueness error
  and writes nothing when the table enforces its key and the key is present, and
  appends the row otherwise.
\<close>

definition Exec_insert :: "Indexer \<Rightarrow> db \<Rightarrow> table \<Rightarrow> row \<Rightarrow> error + db" where
  "Exec_insert i tx t r =
     (if unique i t \<and> key_of t r \<in> set (map (key_of t) (tx t))
      then Inl (ErrSqlite ErrConstraint ErrConstraintUnique)
      else Inr (tx(t := tx t @ [r])))"

section \<open>The ERN indexer\<close>

definition isUniqueErr :: "error \<Rightarrow> bool" where
  "isUniqueErr err =
     (case err of
        ErrSqlite code ext \<Rightarrow> code = ErrConstraint \<and> ext = ErrConstraintUnique
      | _ \<Rightarrow> False)"

text \<open>The deferred function of \<^verbatim>\<open>DecodeObj\<close> wraps every error it returns.\<close>

definition DecodeObj :: "Indexer \<Rightarrow> object \<Rightarrow> string list \<Rightarrow> error + string" where
  "DecodeObj i metaObj path =
     (case Graph_Get i metaObj path of
        Inl e \<Rightarrow> Inl (ErrDecoding path e)
      | Inr x \<Rightarrow>
          (case x of
             VCid c \<Rightarrow>
               (case Store_Get i c of
                  Inl e \<Rightarrow> Inl (ErrDecoding path e)
                | Inr obj \<Rightarrow>
                    (case Object_Decode i obj of
                       Inl e \<Rightarrow> Inl (ErrDecoding path e)
                     | Inr s \<Rightarrow> Inr s))
           | _ \<Rightarrow> Inl (ErrDecoding path (ErrExpectedCid path x))))"

text \<open>
  \<^verbatim>\<open>insertParty\<close>: the error of decoding PartyId is dropped and the identifier is then
  the zero value, the empty string; a uniqueness error of the insert is not returned.
\<close>

definition insertParty :: "Indexer \<Rightarrow> db \<Rightarrow> object \<Rightarrow> error + db" where
  "insertParty i tx obj =
     (let partyID = (case DecodeObj i obj [''PartyId''] of Inl err \<Rightarrow> [] | Inr s \<Rightarrow> s) in
      case DecodeObj i obj [''PartyName'', ''FullName''] of
        Inl e \<Rightarrow> Inl e
      | Inr partyName \<Rightarrow>
          (case Exec_insert i tx T_party [Cid obj, partyID, partyName] of
             Inl err \<Rightarrow> if \<not> isUniqueErr err then Inl err else Inr tx
           | Inr tx' \<Rightarrow> Inr tx'))"

text \<open>
  The type switch that the four list-valued fields share, with the loop over a
  sequence's elements. It has no default case: a value that is neither a
  \<^verbatim>\<open>*format.Link\<close> nor a \<^verbatim>\<open>[]interface{}\<close> leaves the identifiers nil. The first
  argument is the word of the error message (party, resource, release).
\<close>

fun cid_elems :: "string \<Rightarrow> val list \<Rightarrow> error + cid list" where
  "cid_elems what [] = Inr []"
| "cid_elems what (x # xs) =
     (case x of
        VCid c \<Rightarrow> (case cid_elems what xs of Inl e \<Rightarrow> Inl e | Inr cs \<Rightarrow> Inr (c # cs))
      | _ \<Rightarrow> Inl (ErrInvalidType what x))"

definition link_cids :: "string \<Rightarrow> val \<Rightarrow> error + cid list" where
  "link_cids what v =
     (case v of
        VLink c \<Rightarrow> Inr [c]
      | VSeq xs \<Rightarrow> cid_elems what xs
      | _ \<Rightarrow> Inr [])"

fun insertParties_each :: "Indexer \<Rightarrow> db \<Rightarrow> cid list \<Rightarrow> error + db" where
  "insertParties_each i tx [] = Inr tx"
| "insertParties_each i tx (c # cs) =
     (case Store_Get i c of
        Inl e \<Rightarrow> Inl e
      | Inr party \<Rightarrow>
          (case insertParty i tx party of
             Inl e \<Rightarrow> Inl e
           | Inr tx' \<Rightarrow> insertParties_each i tx' cs))"

definition insertParties :: "Indexer \<Rightarrow> db \<Rightarrow> object \<Rightarrow> string \<Rightarrow> error + (cid list \<times> db)" where
  "insertParties i tx obj field =
     (case Object_Get obj field of
        Inl e \<Rightarrow> Inl e
      | Inr v \<Rightarrow>
          (case link_cids ''party'' v of
             Inl e \<Rightarrow> Inl e
           | Inr ids \<Rightarrow>
               (case insertParties_each i tx ids of
                  Inl e \<Rightarrow> Inl e
                | Inr tx' \<Rightarrow> Inr (ids, tx'))))"

text \<open>
  \<^verbatim>\<open>indexMessageHeader\<close>. After the length checks \<^verbatim>\<open>senders[0]\<close> and
  \<^verbatim>\<open>recipients[0]\<close> are the heads of one-element lists. The insert into \<open>ern\<close> returns
  whatever error \<^verbatim>\<open>tx.Exec\<close> gives.
\<close>

definition indexMessageHeader :: "Indexer \<Rightarrow> db \<Rightarrow> cid \<Rightarrow> object \<Rightarrow> error + db" where
  "indexMessageHeader i tx ernID obj =
     (case insertParties i tx obj ''MessageSender'' of
        Inl e \<Rightarrow> Inl e
      | Inr (senders, tx1) \<Rightarrow>
          if length senders \<noteq> 1 then Inl (ErrExpectedOne ''sender'' (length senders))
          else
            (case insertParties i tx1 obj ''MessageRecipient'' of
               Inl e \<Rightarrow> Inl e
             | Inr (recipients, tx2) \<Rightarrow>
                 if length recipients \<noteq> 1
                 then Inl (ErrExpectedOne ''recipient'' (length recipients))
                 else
                   (case DecodeObj i obj [''MessageId''] of
                      Inl e \<Rightarrow> Inl e
                    | Inr messageID \<Rightarrow>
                        (case DecodeObj i obj [''MessageThreadId''] of
                           Inl e \<Rightarrow> Inl e
                         | Inr threadID \<Rightarrow>
                             (case DecodeObj i obj [''MessageCreatedDateTime''] of
                                Inl e \<Rightarrow> Inl e
                              | Inr created \<Rightarrow>
                                  Exec_insert i tx2 T_ern
                                    [ernID, messageID, threadID, hd senders, hd recipients,
                                     created])))))"

definition indexWorkList :: "Indexer \<Rightarrow> db \<Rightarrow> cid \<Rightarrow> object \<Rightarrow> error + db" where
  "indexWorkList i tx ernID obj = Inr tx"

text \<open>
  The two ways a leaf string is read through the graph. An optional identifier
  (\<^verbatim>\<open>if err == nil { isrc = v.(string) }\<close>) is the empty string on every error; the
  title (\<^verbatim>\<open>else if !meta.IsPathNotFound(err) { return err }\<close>) is the empty string
  only when the path is not found. The type assertion panics on a value that is not a
  string.
\<close>

definition attempt_string :: "error + val \<Rightarrow> error + string" where
  "attempt_string r =
     (case r of
        Inl err \<Rightarrow> Inr []
      | Inr v \<Rightarrow> (case v of VStr s \<Rightarrow> Inr s | _ \<Rightarrow> Inl ErrPanic))"

definition title_string :: "error + val \<Rightarrow> error + string" where
  "title_string r =
     (case r of
        Inr v \<Rightarrow> (case v of VStr s \<Rightarrow> Inr s | _ \<Rightarrow> Inl ErrPanic)
      | Inl err \<Rightarrow> if \<not> IsPathNotFound err then Inl err else Inr [])"

fun displayArtists_each :: "Indexer \<Rightarrow> db \<Rightarrow> cid list \<Rightarrow> error + db" where
  "displayArtists_each i tx [] = Inr tx"
| "displayArtists_each i tx (c # cs) =
     (case Store_Get i c of
        Inl e \<Rightarrow> Inl e
      | Inr obj \<Rightarrow>
          (case insertParties i tx obj ''DisplayArtist'' of
             Inl e \<Rightarrow> Inl e
           | Inr (ids, tx') \<Rightarrow> displayArtists_each i tx' cs))"

definition indexSoundRecording :: "Indexer \<Rightarrow> db \<Rightarrow> cid \<Rightarrow> object \<Rightarrow> error + db" where
  "indexSoundRecording i tx ernID obj =
     (case attempt_string (Graph_Get i obj [''SoundRecordingId'', ''ISRC'', ''@value'']) of
        Inl e \<Rightarrow> Inl e
      | Inr isrc \<Rightarrow>
          (case Object_Get obj ''SoundRecordingDetailsByTerritory'' of
             Inl e \<Rightarrow> Inl e
           | Inr srCid \<Rightarrow>
               (case link_cids ''resource'' srCid of
                  Inl e \<Rightarrow> Inl e
                | Inr cids \<Rightarrow>
                    (case displayArtists_each i tx cids of
                       Inl e \<Rightarrow> Inl e
                     | Inr tx1 \<Rightarrow>
                         (case title_string
                                 (Graph_Get i obj [''ReferenceTitle'', ''TitleText'', ''@value'']) of
                            Inl e \<Rightarrow> Inl e
                          | Inr title \<Rightarrow>
                              if title = [] then Inl (ErrMissingReferenceTitle ''SoundRecording'')
                              else
                                (case Exec_insert i tx1 T_sound_recording [Cid obj, isrc, title] of
                                   Inl e \<Rightarrow> Inl e
                                 | Inr tx2 \<Rightarrow>
                                     (case Exec_insert i tx2 T_resource_list [ernID, Cid obj] of
                                        Inl e \<Rightarrow> Inl e
                                      | Inr tx3 \<Rightarrow> Inr tx3)))))))"

fun indexSoundRecording_each :: "Indexer \<Rightarrow> db \<Rightarrow> cid \<Rightarrow> cid list \<Rightarrow> error + db" where
  "indexSoundRecording_each i tx ernID [] = Inr tx"
| "indexSoundRecording_each i tx ernID (c # cs) =
     (case Store_Get i c of
        Inl e \<Rightarrow> Inl e
      | Inr obj \<Rightarrow>
          (case indexSoundRecording i tx ernID obj of
             Inl e \<Rightarrow> Inl e
           | Inr tx' \<Rightarrow> indexSoundRecording_each i tx' ernID cs))"

definition indexResourceList :: "Indexer \<Rightarrow> db \<Rightarrow> cid \<Rightarrow> object \<Rightarrow> error + db" where
  "indexResourceList i tx ernID obj =
     (case Object_Get obj ''SoundRecording'' of
        Inl e \<Rightarrow> Inl e
      | Inr v \<Rightarrow>
          (case link_cids ''resource'' v of
             Inl e \<Rightarrow> Inl e
           | Inr cids \<Rightarrow> indexSoundRecording_each i tx ernID cids))"

definition indexRelease :: "Indexer \<Rightarrow> db \<Rightarrow> cid \<Rightarrow> object \<Rightarrow> error + db" where
  "indexRelease i tx ernID metaObj =
     (case attempt_string (Graph_Get i metaObj [''ReleaseId'', ''GRid'', ''@value'']) of
        Inl e \<Rightarrow> Inl e
      | Inr grId \<Rightarrow>
          (case title_string
                  (Graph_Get i metaObj [''ReferenceTitle'', ''TitleText'', ''@value'']) of
             Inl e \<Rightarrow> Inl e
           | Inr title \<Rightarrow>
               if title = [] then Inl (ErrMissingReferenceTitle ''Release'')
               else
                 (case Exec_insert i tx T_release [Cid metaObj, grId, title] of
                    Inl e \<Rightarrow> Inl e
                  | Inr tx1 \<Rightarrow> Exec_insert i tx1 T_release_list [ernID, Cid metaObj])))"

fun indexRelease_each :: "Indexer \<Rightarrow> db \<Rightarrow> cid \<Rightarrow> cid list \<Rightarrow> error + db" where
  "indexRelease_each i tx ernID [] = Inr tx"
| "indexRelease_each i tx ernID (c # cs) =
     (case Store_Get i c of
        Inl e \<Rightarrow> Inl e
      | Inr rObj \<Rightarrow>
          (case indexRelease i tx ernID rObj of
             Inl e \<Rightarrow> Inl e
           | Inr tx' \<Rightarrow> indexRelease_each i tx' ernID cs))"

definition indexReleaseList :: "Indexer \<Rightarrow> db \<Rightarrow> cid \<Rightarrow> object \<Rightarrow> error + db" where
  "indexReleaseList i tx ernID metaObj =
     (case Object_Get metaObj ''Release'' of
        Inl e \<Rightarrow> Inl e
      | Inr rls \<Rightarrow>
          (case link_cids ''release'' rls of
             Inl e \<Rightarrow> Inl e
           | Inr cids \<Rightarrow> indexRelease_each i tx ernID cids))"

definition indexProperty ::
  "Indexer \<Rightarrow> db \<Rightarrow> cid \<Rightarrow> cid \<Rightarrow> (Indexer \<Rightarrow> db \<Rightarrow> cid \<Rightarrow> object \<Rightarrow> error + db) \<Rightarrow> error + db" where
  "indexProperty i tx ernID c indexFn =
     (case Store_Get i c of
        Inl e \<Rightarrow> Inl e
      | Inr obj \<Rightarrow> indexFn i tx ernID obj)"

text \<open>
  The dispatch map of \<^verbatim>\<open>indexERN\<close>, from field name to index function. Go leaves the
  order in which \<^verbatim>\<open>range\<close> visits a map unspecified, so the order of one call is an
  argument: a list that holds each of the four keys once.
\<close>

datatype ern_field = MessageHeader | WorkList | ResourceList | ReleaseList

definition field_name :: "ern_field \<Rightarrow> string" where
  "field_name s =
     (case s of
        MessageHeader \<Rightarrow> ''MessageHeader''
      | WorkList \<Rightarrow> ''WorkList''
      | ResourceList \<Rightarrow> ''ResourceList''
      | ReleaseList \<Rightarrow> ''ReleaseList'')"

definition indexFn_of :: "ern_field \<Rightarrow> Indexer \<Rightarrow> db \<Rightarrow> cid \<Rightarrow> object \<Rightarrow> error + db" where
  "indexFn_of s =
     (case s of
        MessageHeader \<Rightarrow> indexMessageHeader
      | WorkList \<Rightarrow> indexWorkList
      | ResourceList \<Rightarrow> indexResourceList
      | ReleaseList \<Rightarrow> indexReleaseList)"

definition range_order :: "ern_field list \<Rightarrow> bool" where
  "range_order ord = (distinct ord \<and> length ord = 4)"

fun indexERN_range :: "Indexer \<Rightarrow> db \<Rightarrow> object \<Rightarrow> ern_field list \<Rightarrow> error + db" where
  "indexERN_range i tx ern [] = Inr tx"
| "indexERN_range i tx ern (s # ss) =
     (case Graph_Get i ern [''NewReleaseMessage'', field_name s] of
        Inl err \<Rightarrow> if IsPathNotFound err then indexERN_range i tx ern ss else Inl err
      | Inr v \<Rightarrow>
          (case v of
             VCid c \<Rightarrow>
               (case indexProperty i tx (Cid ern) c (indexFn_of s) of
                  Inl e \<Rightarrow> Inl e
                | Inr tx' \<Rightarrow> indexERN_range i tx' ern ss)
           | _ \<Rightarrow> Inl (ErrUnexpectedFieldType (field_name s) v)))"

definition indexERN :: "Indexer \<Rightarrow> db \<Rightarrow> object \<Rightarrow> ern_field list \<Rightarrow> error + db" where
  "indexERN i tx ern ord = indexERN_range i tx ern ord"

section \<open>The streaming driver\<close>

text \<open>
  One iteration of the loop of \<^verbatim>\<open>Index\<close>, as the run time resolves it: the case the
  \<^verbatim>\<open>select\<close> takes. \<open>Recv c ord\<close> is an identifier received from \<^verbatim>\<open>stream.Ch()\<close>,
  with the order in which \<^verbatim>\<open>indexERN\<close> ranges over its map for that document;
  \<open>ChClosed err\<close> is the closed channel, \<open>err\<close> being what \<^verbatim>\<open>stream.Err()\<close> then
  returns; \<open>CtxDone err\<close> is \<^verbatim>\<open>ctx.Done()\<close>, \<open>err\<close> being \<^verbatim>\<open>ctx.Err()\<close>.
\<close>

datatype step = Recv cid "ern_field list" | ChClosed "error option" | CtxDone error

text \<open>
  The function that \<^verbatim>\<open>Index\<close> passes to \<^verbatim>\<open>Update\<close>. \<open>Inl e\<close> is the error it returns,
  \<open>Inr tx\<close> is the return of nil with the rows the transaction then holds, and \<open>None\<close>
  is a loop that never returns: no case of the \<^verbatim>\<open>select\<close> ever becomes ready again.
\<close>

fun Index_loop :: "Indexer \<Rightarrow> db \<Rightarrow> step list \<Rightarrow> (error + db) option" where
  "Index_loop i tx [] = None"
| "Index_loop i tx (Recv c ord # rest) =
     (case Store_Get i c of
        Inl e \<Rightarrow> Some (Inl e)
      | Inr obj \<Rightarrow>
          (case indexERN i tx obj ord of
             Inl e \<Rightarrow> Some (Inl e)
           | Inr tx' \<Rightarrow> Index_loop i tx' rest))"
| "Index_loop i tx (ChClosed err # rest) =
     Some (case err of None \<Rightarrow> Inr tx | Some e \<Rightarrow> Inl e)"
| "Index_loop i tx (CtxDone e # rest) = Some (Inl e)"

text \<open>
  Modelled from the spec: \<^verbatim>\<open>Index.Update\<close> of package meta, which the sources
  verified here call but do not contain. It acquires a transaction, runs the function
  on it, commits only if the function returned no error and rolls back otherwise; the
  function's error is the error of the call. The result is the error returned and the
  database the call leaves behind; \<open>None\<close> is a function that never returns. A commit
  that fails is outside the model.
\<close>

definition Update :: "db \<Rightarrow> (db \<Rightarrow> (error + db) option) \<Rightarrow> (error option \<times> db) option" where
  "Update d fn =
     (case fn d of
        None \<Rightarrow> None
      | Some r \<Rightarrow> Some (case r of Inl e \<Rightarrow> (Some e, d) | Inr tx \<Rightarrow> (None, tx)))"

definition Index :: "Indexer \<Rightarrow> db \<Rightarrow> step list \<Rightarrow> (error option \<times> db) option" where
  "Index i d steps = Update d (\<lambda>tx. Index_loop i tx steps)"

text \<open>
  The identifiers of a stream processed one after the other, each with the range order
  of its document: what the loop does with a run of \<open>Recv\<close> steps.
\<close>

fun index_all :: "Indexer \<Rightarrow> db \<Rightarrow> (cid \<times> ern_field list) list \<Rightarrow> error + db" where
  "index_all i tx [] = Inr tx"
| "index_all i tx ((c, ord) # cs) =
     (case Store_Get i c of
        Inl e \<Rightarrow> Inl e
      | Inr obj \<Rightarrow>
          (case indexERN i tx obj ord of
             Inl e \<Rightarrow> Inl e
           | Inr tx' \<Rightarrow> index_all i tx' cs))"

definition recvs :: "(cid \<times> ern_field list) list \<Rightarrow> step list" where
  "recvs cs = map (\<lambda>(c, ord). Recv c ord) cs"

text \<open>
  The \<^verbatim>\<open>select\<close> statement. Go takes one of the cases that can proceed, chosen at
  random when several can, and blocks while none can. The channel of the stream holds
  an identifier ready to be received, is closed, or is empty; the context is live or
  cancelled. \<open>can_proceed ch cx s\<close> says that the select may take \<open>s\<close> in that state.
\<close>

datatype chan_state = Item cid | Closed "error option" | Empty

datatype ctx_state = Live | Cancelled error

definition can_proceed :: "chan_state \<Rightarrow> ctx_state \<Rightarrow> step \<Rightarrow> bool" where
  "can_proceed ch cx s =
     (case s of
        Recv c ord \<Rightarrow> ch = Item c \<and> range_order ord
      | ChClosed err \<Rightarrow> ch = Closed err
      | CtxDone e \<Rightarrow> cx = Cancelled e)"

section \<open>The migration engine\<close>

record migration =
  Version :: nat
  Identifier :: string

type_synonym Migrations = "migration list"

definition NewMigrations :: Migrations where
  "NewMigrations = []"

text \<open>
  Modelled from the spec: \<^verbatim>\<open>source.Migrations.Append\<close> of the migrate library, which
  the sources verified here call but do not contain. A duplicate version is refused
  (\<open>None\<close> is the result \<^verbatim>\<open>false\<close>).
\<close>

definition Append :: "Migrations \<Rightarrow> migration \<Rightarrow> Migrations option" where
  "Append m x = (if Version x \<in> set (map Version m) then None else Some (m @ [x]))"

text \<open>\<^verbatim>\<open>Add\<close> panics (\<open>None\<close>) when \<^verbatim>\<open>Append\<close> refuses.\<close>

definition Add :: "Migrations \<Rightarrow> nat \<Rightarrow> string \<Rightarrow> Migrations option" where
  "Add m version sql =
     (case Append m \<lparr>Version = version, Identifier = sql\<rparr> of
        None \<Rightarrow> None
      | Some m' \<Rightarrow> Some m')"

datatype migrate_error = ErrNoChange | ErrDriver string | ErrMigration nat

text \<open>
  The database as the engine sees it: the applied version (0 for the empty schema) and
  the migration bodies executed on it, in order.
\<close>

record database =
  version :: nat
  executed :: "string list"

text \<open>
  What \<^verbatim>\<open>Run\<close> gets from the SQLite driver and the migrate library: the outcome of each
  of the three calls that build the migrator, and whether the database, in a given
  state, executes a migration body.
\<close>

record engine =
  WithInstance :: "migrate_error option"
  Open :: "migrate_error option"
  NewWithInstance :: "migrate_error option"
  accepts :: "database \<Rightarrow> string \<Rightarrow> bool"

text \<open>
  Modelled from the spec: \<^verbatim>\<open>Migrate.Up\<close> of the migrate library, which the sources
  verified here call but do not contain. It applies every migration with a version
  strictly higher than the applied one, in ascending order; a failure aborts the run
  and leaves the schema at the last version applied; with nothing to apply it returns
  \<^verbatim>\<open>ErrNoChange\<close>.
\<close>

definition pending :: "Migrations \<Rightarrow> nat \<Rightarrow> migration list" where
  "pending m v = sort_key Version (filter (\<lambda>x. v < Version x) m)"

fun apply_each :: "engine \<Rightarrow> migration list \<Rightarrow> database \<Rightarrow> migrate_error option \<times> database" where
  "apply_each g [] d = (None, d)"
| "apply_each g (x # xs) d =
     (if accepts g d (Identifier x)
      then apply_each g xs \<lparr>version = Version x, executed = executed d @ [Identifier x]\<rparr>
      else (Some (ErrMigration (Version x)), d))"

definition Up :: "engine \<Rightarrow> Migrations \<Rightarrow> database \<Rightarrow> migrate_error option \<times> database" where
  "Up g m d =
     (if pending m (version d) = [] then (Some ErrNoChange, d)
      else apply_each g (pending m (version d)) d)"

definition Run :: "engine \<Rightarrow> Migrations \<Rightarrow> database \<Rightarrow> migrate_error option \<times> database" where
  "Run g m d =
     (case WithInstance g of
        Some err \<Rightarrow> (Some err, d)
      | None \<Rightarrow>
          (case Open g of
             Some err \<Rightarrow> (Some err, d)
           | None \<Rightarrow>
               (case NewWithInstance g of
                  Some err \<Rightarrow> (Some err, d)
                | None \<Rightarrow>
                    (case Up g m d of
                       (Some err, d') \<Rightarrow>
                         if err \<noteq> ErrNoChange then (Some err, d') else (None, d')
                     | (None, d') \<Rightarrow> (None, d')))))"

section \<open>Auxiliary definitions and example inputs\<close>

text \<open>A sequence element that is a \<^verbatim>\<open>*cid.Cid\<close>.\<close>

definition is_cid :: "val \<Rightarrow> bool" where
  "is_cid v = (case v of VCid c \<Rightarrow> True | _ \<Rightarrow> False)"

text \<open>
  An object store given by the fields of each object it holds, an index whose
  uniqueness constraints are \<open>u\<close>, and a decoder that reads the field \<^verbatim>\<open>@value\<close>.
\<close>

definition decode_value :: "object \<Rightarrow> string + string" where
  "decode_value obj =
     (case map_of (Fields obj) ''@value'' of
        None \<Rightarrow> Inr []
      | Some v \<Rightarrow> (case v of VStr s \<Rightarrow> Inr s | _ \<Rightarrow> Inl ''cannot unmarshal into string''))"

definition indexer_of :: "(table \<Rightarrow> bool) \<Rightarrow> (cid \<times> (string \<times> val) list) list \<Rightarrow> Indexer" where
  "indexer_of u objs =
     \<lparr>store = (\<lambda>c. case map_of objs c of
                      None \<Rightarrow> Inl ''not found''
                    | Some fs \<Rightarrow> Inr \<lparr>Cid = c, Fields = fs\<rparr>),
      unique = u, decode = decode_value\<rparr>"

definition empty_db :: db where
  "empty_db = (\<lambda>t. [])"

definition map_order :: "ern_field list" where
  "map_order = [MessageHeader, WorkList, ResourceList, ReleaseList]"

definition objs_sections :: "(cid \<times> (string \<times> val) list) list" where
  "objs_sections =
     [(''a'', [(''NewReleaseMessage'', VLink ''nrm0'')]),
      (''nrm0'', []),
      (''b'', [(''NewReleaseMessage'', VLink ''gone'')])]"

definition objs_recording :: "(cid \<times> (string \<times> val) list) list" where
  "objs_recording =
     [(''e1'', [(''NewReleaseMessage'', VLink ''n1'')]),
      (''n1'', [(''ResourceList'', VLink ''rl1'')]),
      (''rl1'', [(''SoundRecording'', VLink ''sr1'')]),
      (''sr1'', [(''SoundRecordingId'', VLink ''gone''),
                 (''SoundRecordingDetailsByTerritory'', VSeq []),
                 (''ReferenceTitle'', VLink ''rt1'')]),
      (''rt1'', [(''TitleText'', VLink ''tt1'')]),
      (''tt1'', [(''@value'', VStr ''Song'')])]"

definition db_recording :: db where
  "db_recording =
     empty_db(T_sound_recording := [[''sr1'', [], ''Song'']],
              T_resource_list := [[''e1'', ''sr1'']])"

definition db_recording_twice :: db where
  "db_recording_twice =
     empty_db(T_sound_recording := [[''sr1'', [], ''Song''], [''sr1'', [], ''Song'']],
              T_resource_list := [[''e1'', ''sr1''], [''e1'', ''sr1'']])"

definition objs_shape :: "(cid \<times> (string \<times> val) list) list" where
  "objs_shape =
     [(''e3'', [(''NewReleaseMessage'', VLink ''n3'')]),
      (''n3'', [(''ResourceList'', VLink ''rl3''), (''ReleaseList'', VLink ''rel3'')]),
      (''rl3'', [(''SoundRecording'', VStr ''oops'')]),
      (''rel3'', [(''Release'', VMap [(''ReferenceTitle'', VStr ''Album'')])])]"





definition engine_ok :: engine where
  "engine_ok = \<lparr>WithInstance = None, Open = None, NewWithInstance = None,
                 accepts = (\<lambda>d sql. True)\<rparr>"

definition migrations_two :: Migrations where
  "migrations_two = [\<lparr>Version = 2, Identifier = ''CREATE INDEX artist_name_idx ON artist (name)''\<rparr>,
                     \<lparr>Version = 1, Identifier = ''CREATE TABLE artist (name text NOT NULL)''\<rparr>]"

definition db_fresh :: database where
  "db_fresh = \<lparr>version = 0, executed = []\<rparr>"

definition db_migrated :: database where
  "db_migrated =
     \<lparr>version = 2,
      executed = [''CREATE TABLE artist (name text NOT NULL)'',
                  ''CREATE INDEX artist_name_idx ON artist (name)'']\<rparr>"

section \<open>Auxiliary lemmas\<close>

lemma cid_elems_cids: "cid_elems what (map VCid cs) = Inr cs"
  by (induction cs) simp_all

lemma cid_elems_bad:
  "\<not> list_all is_cid xs \<Longrightarrow>
   cid_elems what xs = Inl (ErrInvalidType what (hd (dropWhile is_cid xs)))"
  by (induction xs) (auto simp: is_cid_def split: val.splits sum.splits)

lemma indexERN_range_append:
  "indexERN_range i tx ern (xs @ ys) =
     (case indexERN_range i tx ern xs of
        Inl e \<Rightarrow> Inl e
      | Inr tx' \<Rightarrow> indexERN_range i tx' ern ys)"
  by (induction xs arbitrary: tx) (auto split: sum.splits val.splits)

lemma indexERN_range_fails:
  "s \<in> set ord \<Longrightarrow> Graph_Get i ern [''NewReleaseMessage'', field_name s] = Inl err \<Longrightarrow>
   \<not> IsPathNotFound err \<Longrightarrow> isl (indexERN_range i tx ern ord)"
  by (induction ord arbitrary: tx) (auto split: sum.splits val.splits)

lemma indexERN_range_absent:
  "(\<And>s. s \<in> set ord \<Longrightarrow> Graph_Get i ern [''NewReleaseMessage'', field_name s] = Inl ErrPathNotFound) \<Longrightarrow>
   indexERN_range i tx ern ord = Inr tx"
  by (induction ord) (auto simp: IsPathNotFound_def)

lemma range_order_all: "range_order ord \<Longrightarrow> s \<in> set ord"
proof -
  assume r: "range_order ord"
  have u: "(UNIV :: ern_field set) = {MessageHeader, WorkList, ResourceList, ReleaseList}"
    using ern_field.exhaust by auto
  have "card (UNIV :: ern_field set) = 4" unfolding u by simp
  moreover from r have "card (set ord) = 4"
    by (simp add: range_order_def distinct_card)
  moreover have "finite (UNIV :: ern_field set)" unfolding u by simp
  ultimately have "set ord = UNIV"
    using card_subset_eq [of "UNIV :: ern_field set" "set ord"] by simp
  then show ?thesis by simp
qed

lemma Index_loop_recvs:
  "Index_loop i tx (recvs cs @ rest) =
     (case index_all i tx cs of Inl e \<Rightarrow> Some (Inl e) | Inr tx' \<Rightarrow> Index_loop i tx' rest)"
  by (induction cs arbitrary: tx) (auto simp: recvs_def split: sum.splits)

lemma Index_recv_fail:
  "Store_Get i c = Inr ern \<Longrightarrow> indexERN i d ern ord = Inl e \<Longrightarrow>
   Index i d (Recv c ord # rest) = Some (Some e, d)"
  by (simp add: Index_def Update_def)

lemmas eval_simps =
  indexer_of_def decode_value_def empty_db_def map_order_def
  Store_Get_def Object_Decode_def Object_Get_def Graph_Get_def fields_of_def
  IsPathNotFound_def isUniqueErr_def key_of_def Exec_insert_def DecodeObj_def
  insertParty_def link_cids_def insertParties_def indexMessageHeader_def indexWorkList_def
  attempt_string_def title_string_def indexSoundRecording_def indexResourceList_def
  indexRelease_def indexReleaseList_def indexProperty_def field_name_def indexFn_of_def
  range_order_def indexERN_def

lemma sections_absent_eval:
  "Graph_Get (indexer_of u objs_sections) \<lparr>Cid = ''a'', Fields = [(''NewReleaseMessage'', VLink ''nrm0'')]\<rparr>
     [''NewReleaseMessage'', field_name s] = Inl ErrPathNotFound"
  by (simp add: eval_simps objs_sections_def)

lemma sections_store_eval:
  "Graph_Get (indexer_of u objs_sections) \<lparr>Cid = ''b'', Fields = [(''NewReleaseMessage'', VLink ''gone'')]\<rparr>
     [''NewReleaseMessage'', field_name s] = Inl (ErrStore ''not found'')"
  by (simp add: eval_simps objs_sections_def)

lemma recording_eval:
  "index_all (indexer_of u objs_recording) empty_db [(''e1'', map_order)] = Inr db_recording"
  by (simp add: eval_simps objs_recording_def db_recording_def)

lemma recording_gone_eval:
  "index_all (indexer_of u objs_recording) empty_db [(''e1'', map_order), (''gone'', map_order)]
     = Inl (ErrStore ''not found'')"
  by (simp add: eval_simps objs_recording_def db_recording_def)


lemma insertParty_again:
  "unique i T_party \<Longrightarrow> insertParty i tx obj = Inr tx1 \<Longrightarrow> insertParty i tx1 obj = Inr tx1"
  by (auto simp: insertParty_def Let_def Exec_insert_def isUniqueErr_def key_of_def
      split: sum.splits if_splits)























lemma apply_each_executed:
  "apply_each g xs d = (None, d') \<Longrightarrow> executed d' = executed d @ map Identifier xs"
proof (induction xs arbitrary: d)
  case Nil
  then show ?case by simp
next
  case (Cons x xs)
  show ?case
  proof (cases "accepts g d (Identifier x)")
    case True
    with Cons.prems have "apply_each g xs
        \<lparr>version = Version x, executed = executed d @ [Identifier x]\<rparr> = (None, d')"
      by simp
    from Cons.IH [OF this] show ?thesis by simp
  next
    case False
    with Cons.prems show ?thesis by simp
  qed
qed

lemma apply_each_version:
  "apply_each g xs d = (None, d') \<Longrightarrow> xs \<noteq> [] \<Longrightarrow> version d' = Version (last xs)"
proof (induction xs arbitrary: d)
  case Nil
  then show ?case by simp
next
  case (Cons x xs)
  show ?case
  proof (cases "accepts g d (Identifier x)")
    case True
    with Cons.prems have a: "apply_each g xs
        \<lparr>version = Version x, executed = executed d @ [Identifier x]\<rparr> = (None, d')"
      by simp
    show ?thesis
    proof (cases "xs = []")
      case True
      with a have "d' = \<lparr>version = Version x, executed = executed d @ [Identifier x]\<rparr>"
        by simp
      with True show ?thesis by simp
    next
      case False
      with Cons.IH [OF a] show ?thesis by simp
    qed
  next
    case False
    with Cons.prems show ?thesis by simp
  qed
qed

lemma pending_sorted: "sorted (map Version (pending m v))"
  by (simp add: pending_def)

lemma pending_set: "set (pending m v) = {x \<in> set m. v < Version x}"
  by (auto simp: pending_def)

lemma pending_strict:
  "distinct (map Version m) \<Longrightarrow> sorted_wrt (<) (map Version (pending m v))"
proof -
  assume d: "distinct (map Version m)"
  have "distinct (map Version (filter (\<lambda>x. v < Version x) m))"
    using d by (rule distinct_map_filter)
  then have "distinct (map Version (pending m v))"
    by (simp add: pending_def distinct_map)
  with pending_sorted [of m v] show ?thesis
    by (simp add: strict_sorted_iff)
qed

lemma sorted_le_last: "sorted xs \<Longrightarrow> (y :: nat) \<in> set xs \<Longrightarrow> y \<le> last xs"
  by (induction xs) auto

lemma apply_each_err: "apply_each g xs d = (Some e, d') \<Longrightarrow> e \<noteq> ErrNoChange"
proof (induction xs arbitrary: d)
  case Nil
  then show ?case by simp
next
  case (Cons x xs)
  show ?case
  proof (cases "accepts g d (Identifier x)")
    case True
    with Cons.prems have "apply_each g xs
        \<lparr>version = Version x, executed = executed d @ [Identifier x]\<rparr> = (Some e, d')"
      by simp
    from Cons.IH [OF this] show ?thesis .
  next
    case False
    with Cons.prems show ?thesis by auto
  qed
qed

lemma pending_last:
  assumes "pending m v \<noteq> []"
  shows "pending m (Version (last (pending m v))) = []"
proof -
  let ?p = "pending m v"
  have "\<And>x. x \<in> set m \<Longrightarrow> Version (last ?p) < Version x \<Longrightarrow> False"
  proof -
    fix x assume x: "x \<in> set m" and gt: "Version (last ?p) < Version x"
    from assms have l: "last ?p \<in> set ?p" by simp
    then have "v < Version (last ?p)" by (simp add: pending_set)
    with gt x have "x \<in> set ?p" by (simp add: pending_set)
    then have "Version x \<in> set (map Version ?p)" by simp
    moreover have "last (map Version ?p) = Version (last ?p)"
      using assms by (simp add: last_map)
    ultimately have "Version x \<le> Version (last ?p)"
      using sorted_le_last [OF pending_sorted [of m v], of "Version x"] by simp
    with gt show False by simp
  qed
  then have "filter (\<lambda>x. Version (last ?p) < Version x) m = []"
    by (auto simp: filter_empty_conv)
  then show ?thesis by (simp add: pending_def)
qed

lemma Run_ok_drivers:
  "Run g m d = (None, d') \<Longrightarrow> WithInstance g = None \<and> Open g = None \<and> NewWithInstance g = None"
  by (auto simp: Run_def split: option.splits)

lemma Run_ok_cases:
  assumes "Run g m d = (None, d')"
  shows "(pending m (version d) = [] \<and> d' = d)
    \<or> (pending m (version d) \<noteq> [] \<and> apply_each g (pending m (version d)) d = (None, d'))"
proof -
  from Run_ok_drivers [OF assms] have dr: "WithInstance g = None" "Open g = None"
    "NewWithInstance g = None" by simp_all
  show ?thesis
  proof (cases "pending m (version d) = []")
    case True
    with assms dr show ?thesis by (simp add: Run_def Up_def)
  next
    case False
    obtain r d1 where a: "apply_each g (pending m (version d)) d = (r, d1)"
      by (cases "apply_each g (pending m (version d)) d") auto
    show ?thesis
    proof (cases r)
      case None
      with assms dr False a show ?thesis by (simp add: Run_def Up_def)
    next
      case (Some e)
      with a apply_each_err [of g "pending m (version d)" d e d1] have "e \<noteq> ErrNoChange"
        by simp
      with assms dr False a Some show ?thesis by (simp add: Run_def Up_def)
    qed
  qed
qed

lemma Run_current:
  "WithInstance g = None \<Longrightarrow> Open g = None \<Longrightarrow> NewWithInstance g = None \<Longrightarrow>
   pending m (version d) = [] \<Longrightarrow> Run g m d = (None, d)"
  by (simp add: Run_def Up_def)

lemma Run_twice:
  assumes "Run g m d = (None, d')"
  shows "Run g m d' = (None, d')"
proof -
  from Run_ok_drivers [OF assms] have dr: "WithInstance g = None" "Open g = None"
    "NewWithInstance g = None" by simp_all
  from Run_ok_cases [OF assms] have "pending m (version d') = []"
  proof
    assume "pending m (version d) = [] \<and> d' = d"
    then show ?thesis by simp
  next
    assume a: "pending m (version d) \<noteq> [] \<and> apply_each g (pending m (version d)) d = (None, d')"
    with apply_each_version [of g "pending m (version d)" d d']
    have "version d' = Version (last (pending m (version d)))" by simp
    with a pending_last [of m "version d"] show ?thesis by simp
  qed
  with dr show ?thesis by (rule Run_current)
qed

lemma Run_executed:
  assumes "Run g m d = (None, d')"
  shows "executed d' = executed d @ map Identifier (pending m (version d))"
  using Run_ok_cases [OF assms] apply_each_executed [of g "pending m (version d)" d d']
  by auto

lemma pending_highest:
  "\<forall>x \<in> set m. Version x \<le> version d \<Longrightarrow> pending m (version d) = []"
proof -
  assume "\<forall>x \<in> set m. Version x \<le> version d"
  then have "filter (\<lambda>x. version d < Version x) m = []"
    by (auto simp: filter_empty_conv)
  then show ?thesis by (simp add: pending_def)
qed

section \<open>Claims\<close>

text \<open>
  Claim C4. Link-set normalization maps a single link to the one-element sequence of
  its content identifier and a sequence of links, element by element and in source
  order, to their identifiers, so a single link and the one-element sequence of the
  same identifier normalize alike. A sequence with an element that is not a link is an
  error, the error of the first such element, and \<^verbatim>\<open>insertParties\<close> and
  \<^verbatim>\<open>indexResourceList\<close> return it. (Within a sequence a link is a \<^verbatim>\<open>*cid.Cid\<close>, on
  its own it is a \<^verbatim>\<open>*format.Link\<close>.)
\<close>

theorem link_set_normalization:
  "link_cids what (VLink c) = Inr [c]
   \<and> link_cids what (VSeq (map VCid cs)) = Inr cs
   \<and> link_cids what (VSeq [VCid c]) = link_cids what (VLink c)
   \<and> (\<not> list_all is_cid xs \<longrightarrow>
        link_cids what (VSeq xs) = Inl (ErrInvalidType what (hd (dropWhile is_cid xs)))
        \<and> (Object_Get obj field = Inr (VSeq xs) \<longrightarrow>
             insertParties i tx obj field
               = Inl (ErrInvalidType ''party'' (hd (dropWhile is_cid xs))))
        \<and> (Object_Get obj ''SoundRecording'' = Inr (VSeq xs) \<longrightarrow>
             indexResourceList i tx ernID obj
               = Inl (ErrInvalidType ''resource'' (hd (dropWhile is_cid xs)))))"
  by (simp add: link_cids_def cid_elems_cids cid_elems_bad insertParties_def
      indexResourceList_def)

theorem link_set_normalization_witness:
  "\<not> list_all is_cid [VCid ''a'', VStr ''x'']
   \<and> Object_Get \<lparr>Cid = ''o'', Fields = [(''SoundRecording'', VSeq [VCid ''a'', VStr ''x''])]\<rparr>
        ''SoundRecording'' = Inr (VSeq [VCid ''a'', VStr ''x''])
   \<and> link_cids ''party'' (VSeq [VCid ''a'', VStr ''x'']) = Inl (ErrInvalidType ''party'' (VStr ''x''))
   \<and> insertParties (indexer_of (\<lambda>t. True) []) empty_db
        \<lparr>Cid = ''o'', Fields = [(''SoundRecording'', VSeq [VCid ''a'', VStr ''x''])]\<rparr>
        ''SoundRecording'' = Inl (ErrInvalidType ''party'' (VStr ''x''))
   \<and> indexResourceList (indexer_of (\<lambda>t. True) []) empty_db ''e''
        \<lparr>Cid = ''o'', Fields = [(''SoundRecording'', VSeq [VCid ''a'', VStr ''x''])]\<rparr>
        = Inl (ErrInvalidType ''resource'' (VStr ''x''))"
  using link_set_normalization [of "''party''" "''c''" "[]" "[VCid ''a'', VStr ''x'']"
      "\<lparr>Cid = ''o'', Fields = [(''SoundRecording'', VSeq [VCid ''a'', VStr ''x''])]\<rparr>"
      "''SoundRecording''" "indexer_of (\<lambda>t. True) []" empty_db "''e''"]
  by (simp add: is_cid_def Object_Get_def)

text \<open>
  Claim C3. For each of the four sections, in whatever order the map is ranged over:
  when resolving the path of section \<open>s\<close> gives PathNotFound the section is skipped and
  the remaining sections are indexed as if it were not there; when it gives any other
  error, \<^verbatim>\<open>indexERN\<close> returns that error as soon as it reaches the section (at the head
  of the order, or after the sections before it went through), whatever the order it
  returns an error, and \<^verbatim>\<open>Index\<close> then returns an error and leaves the database as it
  was. A document none of whose sections is found is indexed without error and writes
  nothing.
\<close>

theorem indexERN_sections:
  "(Graph_Get i ern [''NewReleaseMessage'', field_name s] = Inl err \<and> IsPathNotFound err \<longrightarrow>
      indexERN i tx ern (s # ss) = indexERN i tx ern ss)
   \<and> (Graph_Get i ern [''NewReleaseMessage'', field_name s] = Inl err \<and> \<not> IsPathNotFound err \<longrightarrow>
        indexERN i tx ern (s # ss) = Inl err
        \<and> (indexERN i tx0 ern pre = Inr tx \<longrightarrow> indexERN i tx0 ern (pre @ s # ss) = Inl err)
        \<and> (range_order ord \<longrightarrow> isl (indexERN i tx ern ord))
        \<and> (range_order ord \<and> Store_Get i c = Inr ern \<longrightarrow>
             (\<exists>e. Index i d (Recv c ord # rest) = Some (Some e, d))))
   \<and> ((\<forall>s. Graph_Get i ern [''NewReleaseMessage'', field_name s] = Inl ErrPathNotFound) \<longrightarrow>
        indexERN i tx ern ord = Inr tx)"
proof -
  have skip: "Graph_Get i ern [''NewReleaseMessage'', field_name s] = Inl err \<Longrightarrow>
      IsPathNotFound err \<Longrightarrow> indexERN i tx ern (s # ss) = indexERN i tx ern ss"
    by (simp add: indexERN_def)
  have absent: "(\<forall>s. Graph_Get i ern [''NewReleaseMessage'', field_name s] = Inl ErrPathNotFound) \<Longrightarrow>
      indexERN i tx ern ord = Inr tx"
    unfolding indexERN_def by (rule indexERN_range_absent) simp
  {
    assume g: "Graph_Get i ern [''NewReleaseMessage'', field_name s] = Inl err"
      and n: "\<not> IsPathNotFound err"
    have a: "indexERN i tx ern (s # ss) = Inl err" for tx
      using g n by (simp add: indexERN_def)
    have b: "indexERN i tx0 ern pre = Inr tx \<Longrightarrow> indexERN i tx0 ern (pre @ s # ss) = Inl err"
      using g n by (simp add: indexERN_def indexERN_range_append)
    have c: "range_order ord \<Longrightarrow> isl (indexERN i tx ern ord)" for tx
      unfolding indexERN_def using g n range_order_all [of ord s]
      by (blast intro: indexERN_range_fails)
    have d: "range_order ord \<Longrightarrow> Store_Get i c = Inr ern \<Longrightarrow>
        \<exists>e. Index i d (Recv c ord # rest) = Some (Some e, d)"
    proof -
      assume r: "range_order ord" and st: "Store_Get i c = Inr ern"
      from c [OF r, of d] obtain e where "indexERN i d ern ord = Inl e"
        by (cases "indexERN i d ern ord") auto
      with st show ?thesis by (auto intro: Index_recv_fail)
    qed
    note a b c d
  }
  with skip absent show ?thesis by blast
qed

theorem indexERN_sections_witness:
  "Graph_Get (indexer_of (\<lambda>t. True) objs_sections)
       \<lparr>Cid = ''a'', Fields = [(''NewReleaseMessage'', VLink ''nrm0'')]\<rparr>
       [''NewReleaseMessage'', field_name ResourceList] = Inl ErrPathNotFound
   \<and> IsPathNotFound ErrPathNotFound
   \<and> indexERN (indexer_of (\<lambda>t. True) objs_sections) empty_db
       \<lparr>Cid = ''a'', Fields = [(''NewReleaseMessage'', VLink ''nrm0'')]\<rparr> map_order = Inr empty_db
   \<and> Graph_Get (indexer_of (\<lambda>t. True) objs_sections)
       \<lparr>Cid = ''b'', Fields = [(''NewReleaseMessage'', VLink ''gone'')]\<rparr>
       [''NewReleaseMessage'', field_name ResourceList] = Inl (ErrStore ''not found'')
   \<and> \<not> IsPathNotFound (ErrStore ''not found'')
   \<and> range_order map_order
   \<and> Store_Get (indexer_of (\<lambda>t. True) objs_sections) ''b''
       = Inr \<lparr>Cid = ''b'', Fields = [(''NewReleaseMessage'', VLink ''gone'')]\<rparr>
   \<and> indexERN (indexer_of (\<lambda>t. True) objs_sections) empty_db
       \<lparr>Cid = ''b'', Fields = [(''NewReleaseMessage'', VLink ''gone'')]\<rparr>
       [ResourceList, MessageHeader] = Inl (ErrStore ''not found'')
   \<and> isl (indexERN (indexer_of (\<lambda>t. True) objs_sections) empty_db
       \<lparr>Cid = ''b'', Fields = [(''NewReleaseMessage'', VLink ''gone'')]\<rparr> map_order)
   \<and> (\<exists>e. Index (indexer_of (\<lambda>t. True) objs_sections) empty_db [Recv ''b'' map_order]
         = Some (Some e, empty_db))"
  using
    indexERN_sections [of "indexer_of (\<lambda>t. True) objs_sections"
      "\<lparr>Cid = ''a'', Fields = [(''NewReleaseMessage'', VLink ''nrm0'')]\<rparr>" ResourceList
      ErrPathNotFound empty_db "[]" empty_db "[]" map_order "''a''" empty_db "[]"]
    indexERN_sections [of "indexer_of (\<lambda>t. True) objs_sections"
      "\<lparr>Cid = ''b'', Fields = [(''NewReleaseMessage'', VLink ''gone'')]\<rparr>" ResourceList
      "ErrStore ''not found''" empty_db "[MessageHeader]" empty_db "[]" map_order "''b''"
      empty_db "[]"]
    sections_absent_eval [of "\<lambda>t. True"] sections_store_eval [of "\<lambda>t. True"]
  by (simp add: IsPathNotFound_def range_order_def map_order_def Store_Get_def
      indexer_of_def objs_sections_def)

text \<open>
  Claim C2. The call runs in one transaction. If \<^verbatim>\<open>Index\<close> returns an error, the
  database is what it was before the call. If processing an identifier fails, whatever
  follows it in the stream, the call returns that error and none of the rows of the
  identifiers before it are kept; the same holds when the cancellation is taken or the
  stream ends with an error after identifiers that succeeded. If every identifier
  succeeds and the stream then ends cleanly, the call returns nil and the database
  holds the rows of all of them.
\<close>

theorem Index_atomic:
  "(Index i d steps = Some (Some e, d') \<longrightarrow> d' = d)
   \<and> (index_all i d cs = Inl e \<longrightarrow> Index i d (recvs cs @ rest) = Some (Some e, d))
   \<and> (index_all i d cs = Inr tx \<longrightarrow>
        Index i d (recvs cs @ CtxDone ce # rest) = Some (Some ce, d)
        \<and> Index i d (recvs cs @ ChClosed (Some se) # rest) = Some (Some se, d)
        \<and> Index i d (recvs cs @ ChClosed None # rest) = Some (None, tx))"
  by (auto simp: Index_def Update_def Index_loop_recvs split: option.splits sum.splits)

theorem Index_atomic_witness:
  "Index (indexer_of (\<lambda>t. True) objs_recording) empty_db
       (recvs [(''e1'', map_order), (''gone'', map_order)] @ [ChClosed None])
     = Some (Some (ErrStore ''not found''), empty_db)
   \<and> index_all (indexer_of (\<lambda>t. True) objs_recording) empty_db
       [(''e1'', map_order), (''gone'', map_order)] = Inl (ErrStore ''not found'')
   \<and> index_all (indexer_of (\<lambda>t. True) objs_recording) empty_db [(''e1'', map_order)]
       = Inr db_recording
   \<and> Index (indexer_of (\<lambda>t. True) objs_recording) empty_db
       (recvs [(''e1'', map_order)] @ [CtxDone (ErrContext ''context canceled'')])
     = Some (Some (ErrContext ''context canceled''), empty_db)
   \<and> Index (indexer_of (\<lambda>t. True) objs_recording) empty_db
       (recvs [(''e1'', map_order)] @ [ChClosed (Some (ErrStream ''bad line''))])
     = Some (Some (ErrStream ''bad line''), empty_db)
   \<and> Index (indexer_of (\<lambda>t. True) objs_recording) empty_db
       (recvs [(''e1'', map_order)] @ [ChClosed None])
     = Some (None, db_recording)"
  using
    Index_atomic [of "indexer_of (\<lambda>t. True) objs_recording" empty_db
      "recvs [(''e1'', map_order), (''gone'', map_order)] @ [ChClosed None]"
      "ErrStore ''not found''" empty_db "[(''e1'', map_order), (''gone'', map_order)]"
      "[ChClosed None]"]
    Index_atomic [of "indexer_of (\<lambda>t. True) objs_recording" empty_db "[]"
      "ErrStore ''not found''" empty_db "[(''e1'', map_order)]" "[]" db_recording
      "ErrContext ''context canceled''" "ErrStream ''bad line''"]
    recording_eval [of "\<lambda>t. True"] recording_gone_eval [of "\<lambda>t. True"]
  by simp

text \<open>
  Claim C9, as stated, fails. The cancellation has fired and an identifier is ready in
  the channel: the select may take the identifier. The call then dequeues it, and here
  returns the store's error for it instead of the cancellation error.
\<close>

theorem cancel_race_counterexample:
  "can_proceed (Item ''gone'') (Cancelled (ErrContext ''context canceled''))
       (Recv ''gone'' map_order)
   \<and> Index (indexer_of (\<lambda>t. True) objs_recording) empty_db
       [Recv ''gone'' map_order, CtxDone (ErrContext ''context canceled'')]
     = Some (Some (ErrStore ''not found''), empty_db)"
  by (simp add: can_proceed_def Index_def Update_def eval_simps objs_recording_def)

text \<open>
  Claim C9, amended. When the select takes the cancellation case, after identifiers
  that were processed, the call returns the context's error whatever else the stream
  holds, and the database is left as it was; when it takes the closed channel it
  returns the stream's terminal error, and with nil the rows are committed. A live
  context is never taken. With the cancellation fired, the select is bound to take it
  when the channel is empty; when an identifier is ready it may take either case.
\<close>

theorem Index_select_cases:
  "(index_all i d cs = Inr tx \<longrightarrow>
      Index i d (recvs cs @ CtxDone ce # rest) = Some (Some ce, d)
      \<and> Index i d (recvs cs @ ChClosed err # rest)
          = Some (err, case err of None \<Rightarrow> tx | Some e \<Rightarrow> d))
   \<and> (can_proceed Empty (Cancelled ce) s \<longrightarrow> s = CtxDone ce)
   \<and> (can_proceed ch Live s \<longrightarrow> s \<noteq> CtxDone ce)
   \<and> (can_proceed (Item c) (Cancelled ce) s
        \<longleftrightarrow> s = CtxDone ce \<or> (\<exists>ord. range_order ord \<and> s = Recv c ord))"
  by (auto simp: Index_def Update_def Index_loop_recvs can_proceed_def
      split: option.splits sum.splits step.splits)

theorem Index_select_cases_witness:
  "index_all (indexer_of (\<lambda>t. True) objs_recording) empty_db [(''e1'', map_order)]
     = Inr db_recording
   \<and> Index (indexer_of (\<lambda>t. True) objs_recording) empty_db
       (recvs [(''e1'', map_order)] @ [CtxDone (ErrContext ''context canceled''), Recv ''gone'' map_order])
     = Some (Some (ErrContext ''context canceled''), empty_db)
   \<and> Index (indexer_of (\<lambda>t. True) objs_recording) empty_db
       (recvs [(''e1'', map_order)] @ [ChClosed None, Recv ''gone'' map_order])
     = Some (None, db_recording)
   \<and> can_proceed Empty (Cancelled (ErrContext ''context canceled''))
       (CtxDone (ErrContext ''context canceled''))
   \<and> can_proceed (Item ''e1'') Live (Recv ''e1'' map_order)
   \<and> can_proceed (Item ''e1'') (Cancelled (ErrContext ''context canceled''))
       (CtxDone (ErrContext ''context canceled''))
   \<and> can_proceed (Item ''e1'') (Cancelled (ErrContext ''context canceled''))
       (Recv ''e1'' map_order)"
  using
    Index_select_cases [of "indexer_of (\<lambda>t. True) objs_recording" empty_db
      "[(''e1'', map_order)]" db_recording "ErrContext ''context canceled''"
      "[Recv ''gone'' map_order]" None "CtxDone (ErrContext ''context canceled'')"
      "Item ''e1''" "''e1''"]
    Index_select_cases [of "indexer_of (\<lambda>t. True) objs_recording" empty_db
      "[(''e1'', map_order)]" db_recording "ErrContext ''context canceled''"
      "[Recv ''gone'' map_order]" None "Recv ''e1'' map_order"
      "Item ''e1''" "''e1''"]
    recording_eval [of "\<lambda>t. True"]
  by (simp add: can_proceed_def range_order_def map_order_def)

text \<open>
  Claim C1, at a failing input. A stream of one document with one sound recording is
  indexed into the empty database, and then once more into the result. Only
  \<^verbatim>\<open>insertParty\<close> tests \<^verbatim>\<open>isUniqueErr\<close>; the inserts into \<open>sound_recording\<close> and
  \<open>resource_list\<close> return every error. So, whatever the constraints \<open>u\<close> of the schema,
  the second run either fails with the uniqueness error (a constraint on one of the two
  tables) or writes each row a second time (no constraint).
\<close>

theorem reindex_sound_recording:
  "Index (indexer_of u objs_recording) empty_db [Recv ''e1'' map_order, ChClosed None]
     = Some (None, db_recording)
   \<and> Index (indexer_of u objs_recording) db_recording [Recv ''e1'' map_order, ChClosed None]
     = Some (if u T_sound_recording \<or> u T_resource_list
             then (Some (ErrSqlite ErrConstraint ErrConstraintUnique), db_recording)
             else (None, db_recording_twice))"
  by (simp add: Index_def Update_def eval_simps objs_recording_def db_recording_def
      db_recording_twice_def)

text \<open>
  Claim C8, at a failing input. The type switch has no default case, so a scalar or a
  nested mapping normalizes to no identifiers and no error. A document whose
  \<^verbatim>\<open>SoundRecording\<close> field is a string and whose \<^verbatim>\<open>Release\<close> field is a mapping is
  indexed without error and writes nothing.
\<close>

theorem wrong_shape_accepted:
  "link_cids what (VStr s) = Inr []
   \<and> link_cids what (VMap m) = Inr []
   \<and> Index (indexer_of u objs_shape) empty_db [Recv ''e3'' map_order, ChClosed None]
     = Some (None, empty_db)"
  by (simp add: Index_def Update_def eval_simps objs_shape_def)








text \<open>
  Claim C10. When \<^verbatim>\<open>Run\<close> returns no error, it has executed exactly the migrations
  whose version is strictly higher than the version the database had, in ascending
  order of version (strictly ascending, versions being distinct as \<^verbatim>\<open>Add\<close> keeps
  them), and a second \<^verbatim>\<open>Run\<close> on the resulting database returns no error and changes
  nothing. On a database that is at or above the highest version defined, \<^verbatim>\<open>Run\<close>
  changes nothing and returns no error: \<^verbatim>\<open>ErrNoChange\<close> is not returned.
\<close>

theorem Run_migrations:
  "(Run g m d = (None, d') \<longrightarrow>
      executed d' = executed d @ map Identifier (pending m (version d))
      \<and> set (pending m (version d)) = {x \<in> set m. version d < Version x}
      \<and> sorted (map Version (pending m (version d)))
      \<and> (distinct (map Version m) \<longrightarrow> sorted_wrt (<) (map Version (pending m (version d))))
      \<and> Run g m d' = (None, d'))
   \<and> (WithInstance g = None \<and> Open g = None \<and> NewWithInstance g = None
        \<and> (\<forall>x \<in> set m. Version x \<le> version d) \<longrightarrow> Run g m d = (None, d))
   \<and> (Add m v sql = Some m' \<longrightarrow>
        v \<notin> set (map Version m) \<and> m' = m @ [\<lparr>Version = v, Identifier = sql\<rparr>])"
proof -
  have add: "Add m v sql = Some m' \<longrightarrow>
      v \<notin> set (map Version m) \<and> m' = m @ [\<lparr>Version = v, Identifier = sql\<rparr>]"
    by (auto simp: Add_def Append_def split: if_splits option.splits)
  have run: "Run g m d = (None, d') \<longrightarrow>
      executed d' = executed d @ map Identifier (pending m (version d))
      \<and> set (pending m (version d)) = {x \<in> set m. version d < Version x}
      \<and> sorted (map Version (pending m (version d)))
      \<and> (distinct (map Version m) \<longrightarrow> sorted_wrt (<) (map Version (pending m (version d))))
      \<and> Run g m d' = (None, d')"
    using Run_executed [of g m d d'] Run_twice [of g m d d'] pending_set [of m "version d"]
      pending_sorted [of m "version d"] pending_strict [of m "version d"]
    by blast
  have cur: "WithInstance g = None \<and> Open g = None \<and> NewWithInstance g = None
        \<and> (\<forall>x \<in> set m. Version x \<le> version d) \<longrightarrow> Run g m d = (None, d)"
    using Run_current [of g m d] pending_highest [of m d] by blast
  show ?thesis by (intro conjI run cur add)
qed

theorem Run_migrations_witness:
  "Run engine_ok migrations_two db_fresh = (None, db_migrated)
   \<and> executed db_migrated
       = executed db_fresh @ map Identifier (pending migrations_two (version db_fresh))
   \<and> distinct (map Version migrations_two)
   \<and> map Version (pending migrations_two (version db_fresh)) = [1, 2]
   \<and> Run engine_ok migrations_two db_migrated = (None, db_migrated)
   \<and> WithInstance engine_ok = None \<and> Open engine_ok = None \<and> NewWithInstance engine_ok = None
   \<and> list_all (\<lambda>x. Version x \<le> version db_migrated) migrations_two
   \<and> Add migrations_two 3 ''DROP TABLE artist''
       = Some (migrations_two @ [\<lparr>Version = 3, Identifier = ''DROP TABLE artist''\<rparr>])
   \<and> Add migrations_two 2 ''DROP TABLE artist'' = None"
proof -
  note ev = Run_def Up_def pending_def engine_ok_def migrations_two_def db_fresh_def
    db_migrated_def Add_def Append_def
  have h: "Run engine_ok migrations_two db_fresh = (None, db_migrated)"
    "distinct (map Version migrations_two)"
    "map Version (pending migrations_two (version db_fresh)) = [1, 2]"
    "WithInstance engine_ok = None" "Open engine_ok = None" "NewWithInstance engine_ok = None"
    "\<forall>x \<in> set migrations_two. Version x \<le> version db_migrated"
    "Add migrations_two 3 ''DROP TABLE artist''
       = Some (migrations_two @ [\<lparr>Version = 3, Identifier = ''DROP TABLE artist''\<rparr>])"
    "Add migrations_two 2 ''DROP TABLE artist'' = None"
    by (simp_all add: ev)
  from h Run_migrations [of engine_ok migrations_two db_fresh db_migrated 3
      "''DROP TABLE artist''"
      "migrations_two @ [\<lparr>Version = 3, Identifier = ''DROP TABLE artist''\<rparr>]"]
  have c1: "executed db_migrated
       = executed db_fresh @ map Identifier (pending migrations_two (version db_fresh))"
    "Run engine_ok migrations_two db_migrated = (None, db_migrated)"
    by blast+
  from h Run_migrations [of engine_ok migrations_two db_migrated db_migrated 3
      "''DROP TABLE artist''"
      "migrations_two @ [\<lparr>Version = 3, Identifier = ''DROP TABLE artist''\<rparr>]"]
  have c2: "Run engine_ok migrations_two db_migrated = (None, db_migrated)"
    by blast
  from h c1 c2 show ?thesis by (simp add: list_all_iff)
qed

end
